theory Spec2Isabelle
  imports Main
begin

section \<open>Values, exceptions and configuration\<close>

text \<open>
  Python values that travel through token claims and through the cached user dictionary.
  Times are whole seconds since the epoch, the resolution at which the expiry claim is
  compared.
\<close>

datatype jval = JNone | JBool bool | JInt int | JStr string

type_synonym claims = "string \<rightharpoonup> jval"

text \<open>
  The user-facing texts of \<open>src/api/auth.py\<close> and \<open>src/services/auth.py\<close>. All but the first
  are Ukrainian sentences in the source; each constructor stands for one distinct text.
  \<^item> \<open>Could_not_validate_credentials\<close>: "Could not validate credentials"
  \<^item> \<open>Invalid_email_token\<close>: the token for e-mail verification is wrong
  \<^item> \<open>Wrong_login_or_password\<close>: wrong login or password
  \<^item> \<open>Email_not_confirmed\<close>: the e-mail address is not confirmed
  \<^item> \<open>Email_already_confirmed\<close>: your e-mail is already confirmed
  \<^item> \<open>Check_your_email\<close>: check your e-mail for the confirmation
\<close>

datatype detail =
    Could_not_validate_credentials
  | Invalid_email_token
  | Wrong_login_or_password
  | Email_not_confirmed
  | Email_already_confirmed
  | Check_your_email

text \<open>
  Exceptions as values. \<open>HTTPException\<close> carries status code, detail and headers;
  \<open>JWTError\<close> stands for the codec's error class and its subclasses (the string is the
  reason); \<open>KeyError\<close> and \<open>AttributeError\<close> are the interpreter's own; \<open>UnknownHashError\<close>
  is the password library's.
\<close>

datatype exn =
    HTTPException int detail "(string \<times> string) list"
  | JWTError string
  | KeyError string
  | AttributeError string
  | UnknownHashError

record settings =
  JWT_SECRET :: string
  JWT_ALGORITHM :: string
  JWT_EXPIRATION_SECONDS :: int

text \<open>\<open>class Settings\<close> of \<open>src/conf/config.py\<close>: the secret has no default, the other two do.\<close>

definition Settings :: "string \<Rightarrow> settings" where
  "Settings secret =
     \<lparr>JWT_SECRET = secret, JWT_ALGORITHM = ''HS256'', JWT_EXPIRATION_SECONDS = 3600\<rparr>"

section \<open>Collaborators taken as parameters\<close>

text \<open>
  The token codec (\<open>jwt.encode\<close>, \<open>jwt.decode\<close>) is a library: it is a parameter of every
  function that calls it. Decoding reads the clock, so the current time is an argument.
\<close>

record 'tok jwt =
  encode :: "claims \<Rightarrow> string \<Rightarrow> string \<Rightarrow> 'tok"
  decode :: "'tok \<Rightarrow> string \<Rightarrow> string list \<Rightarrow> int \<Rightarrow> exn + claims"

text \<open>\<open>CryptContext.verify\<close>, which may raise.\<close>

record crypt_context =
  verify :: "string \<Rightarrow> string \<Rightarrow> exn + bool"

text \<open>
  The user entity as the handlers read it. The \<open>confirmed\<close> column is nullable (migration
  \<open>dd5b5737a78c\<close>), and so is the avatar.
\<close>

record user =
  user_id :: int
  username :: string
  email :: string
  hashed_password :: string
  confirmed :: "bool option"
  avatar :: "string option"

text \<open>
  \<open>UserService\<close>: the two lookups the handlers call. They receive whatever Python value the
  caller holds (for \<open>get_current_user\<close>, the decoded subject claim).
\<close>

record user_service =
  get_user_by_username :: "jval \<Rightarrow> user option"
  get_user_by_email :: "jval \<Rightarrow> user option"

section \<open>\<open>src/services/auth.py\<close>\<close>

text \<open>\<open>Hash.verify_password\<close>: one call of the context, with no handler around it.\<close>

definition verify_password :: "crypt_context \<Rightarrow> string \<Rightarrow> string \<Rightarrow> exn + bool" where
  "verify_password pwd_context plain_password hashed = verify pwd_context plain_password hashed"

text \<open>
  The \<open>expire\<close> variable of \<open>create_access_token\<close>. The test \<open>if expires_delta:\<close> is Python
  truthiness: both \<open>None\<close> and \<open>0\<close> take the else branch.
\<close>

definition expire :: "settings \<Rightarrow> int \<Rightarrow> int option \<Rightarrow> int" where
  "expire st now expires_delta =
     (case expires_delta of
        None \<Rightarrow> now + JWT_EXPIRATION_SECONDS st
      | Some d \<Rightarrow> if d \<noteq> 0 then now + d else now + JWT_EXPIRATION_SECONDS st)"

text \<open>The dictionary \<open>to_encode\<close> of \<open>create_access_token\<close> after its update.\<close>

definition access_claims :: "settings \<Rightarrow> int \<Rightarrow> claims \<Rightarrow> int option \<Rightarrow> claims" where
  "access_claims st now data expires_delta =
     data(''exp'' \<mapsto> JInt (expire st now expires_delta))"

definition create_access_token ::
  "'tok jwt \<Rightarrow> settings \<Rightarrow> int \<Rightarrow> claims \<Rightarrow> int option \<Rightarrow> 'tok" where
  "create_access_token cd st now data expires_delta =
     encode cd (access_claims st now data expires_delta) (JWT_SECRET st) (JWT_ALGORITHM st)"

definition credentials_exception :: exn where
  "credentials_exception =
     HTTPException 401 Could_not_validate_credentials [(''WWW-Authenticate'', ''Bearer'')]"

text \<open>
  \<open>get_current_user\<close>. Inside the \<open>try\<close>, only the codec's error class is caught; the
  subscript \<open>payload["sub"]\<close> raises \<open>KeyError\<close> on a missing key, which the handler does not
  catch.
\<close>

definition get_current_user ::
  "'tok jwt \<Rightarrow> settings \<Rightarrow> user_service \<Rightarrow> int \<Rightarrow> 'tok \<Rightarrow> exn + user" where
  "get_current_user cd st db now token =
     (case decode cd token (JWT_SECRET st) [JWT_ALGORITHM st] now of
        Inl e \<Rightarrow> (case e of JWTError m \<Rightarrow> Inl credentials_exception | _ \<Rightarrow> Inl e)
      | Inr payload \<Rightarrow>
          (case payload ''sub'' of
             None \<Rightarrow> Inl (KeyError ''sub'')
           | Some name \<Rightarrow>
               if name = JNone then Inl credentials_exception
               else (case get_user_by_username db name of
                       None \<Rightarrow> Inl credentials_exception
                     | Some u \<Rightarrow> Inr u)))"

text \<open>The dictionary \<open>to_encode\<close> of \<open>create_email_token\<close>: seven days are 604800 seconds.\<close>

definition email_claims :: "int \<Rightarrow> claims \<Rightarrow> claims" where
  "email_claims now data = data(''iat'' \<mapsto> JInt now, ''exp'' \<mapsto> JInt (now + 7 * 86400))"

definition create_email_token :: "'tok jwt \<Rightarrow> settings \<Rightarrow> int \<Rightarrow> claims \<Rightarrow> 'tok" where
  "create_email_token cd st now data =
     encode cd (email_claims now data) (JWT_SECRET st) (JWT_ALGORITHM st)"

definition get_email_from_token :: "'tok jwt \<Rightarrow> settings \<Rightarrow> int \<Rightarrow> 'tok \<Rightarrow> exn + jval" where
  "get_email_from_token cd st now token =
     (case decode cd token (JWT_SECRET st) [JWT_ALGORITHM st] now of
        Inl e \<Rightarrow> (case e of JWTError m \<Rightarrow> Inl (HTTPException 422 Invalid_email_token [])
                  | _ \<Rightarrow> Inl e)
      | Inr payload \<Rightarrow>
          (case payload ''sub'' of
             None \<Rightarrow> Inl (KeyError ''sub'')
           | Some e \<Rightarrow> Inr e))"

section \<open>\<open>src/api/auth.py\<close>\<close>

text \<open>
  The cache: each key holds a value and, once \<open>expire\<close> was called, a time to live. \<open>set\<close>
  replaces the entry and clears its time to live. The stored value is the dictionary
  \<open>user_data\<close> (the source stores its JSON text).
\<close>

type_synonym user_data = "(string \<times> jval) list"

type_synonym redis = "string \<rightharpoonup> (user_data \<times> int option)"

definition redis_set :: "redis \<Rightarrow> string \<Rightarrow> user_data \<Rightarrow> redis" where
  "redis_set r k v = r(k \<mapsto> (v, None))"

definition redis_expire :: "redis \<Rightarrow> string \<Rightarrow> int \<Rightarrow> redis" where
  "redis_expire r k s = (case r k of None \<Rightarrow> r | Some (v, t) \<Rightarrow> r(k \<mapsto> (v, Some s)))"

record login_form =
  form_username :: string
  form_password :: string

record 'tok token_response =
  access_token :: 'tok
  token_type :: string

text \<open>The dictionary \<open>user_data\<close> built by \<open>login_user\<close>.\<close>

definition snapshot :: "user \<Rightarrow> user_data" where
  "snapshot u =
     [(''id'', JInt (user_id u)),
      (''username'', JStr (username u)),
      (''email'', JStr (email u)),
      (''confirmed'', (case confirmed u of None \<Rightarrow> JNone | Some b \<Rightarrow> JBool b)),
      (''avatar'', (case avatar u of None \<Rightarrow> JNone | Some a \<Rightarrow> JStr a))]"

text \<open>
  \<open>login_user\<close>, returning the response or the exception together with the cache as the
  handler leaves it. \<open>not user or not verify_password(...)\<close> short-circuits on a missing user;
  \<open>not user.confirmed\<close> holds for \<open>False\<close> and for \<open>None\<close>.
\<close>

definition login_user ::
  "'tok jwt \<Rightarrow> settings \<Rightarrow> crypt_context \<Rightarrow> user_service \<Rightarrow> int \<Rightarrow> login_form \<Rightarrow> redis
     \<Rightarrow> (exn + 'tok token_response) \<times> redis" where
  "login_user cd st pwd_context db now form_data r =
     (case get_user_by_username db (JStr (form_username form_data)) of
        None \<Rightarrow>
          (Inl (HTTPException 401 Wrong_login_or_password [(''WWW-Authenticate'', ''Bearer'')]), r)
      | Some u \<Rightarrow>
          (case verify_password pwd_context (form_password form_data) (hashed_password u) of
             Inl e \<Rightarrow> (Inl e, r)
           | Inr ok \<Rightarrow>
               if \<not> ok then
                 (Inl (HTTPException 401 Wrong_login_or_password
                         [(''WWW-Authenticate'', ''Bearer'')]), r)
               else if confirmed u \<noteq> Some True then
                 (Inl (HTTPException 401 Email_not_confirmed []), r)
               else
                 (let tok = create_access_token cd st now [''sub'' \<mapsto> JStr (username u)] None;
                      key = ''user:'' @ username u;
                      r1 = redis_set r key (snapshot u);
                      r2 = redis_expire r1 key 3600
                  in (Inr \<lparr>access_token = tok, token_type = ''bearer''\<rparr>, r2))))"

text \<open>A background task: \<open>send_email\<close> with its three arguments.\<close>

datatype task = Send_email string string string

text \<open>
  \<open>request_email\<close>, returning the message or the exception together with the task queue.
  The attribute \<open>user.confirmed\<close> is read before \<open>user\<close> is tested: on \<open>None\<close> the read
  raises \<open>AttributeError\<close>.
\<close>

definition request_email ::
  "user_service \<Rightarrow> string \<Rightarrow> string \<Rightarrow> task list \<Rightarrow> (exn + detail) \<times> task list" where
  "request_email db body_email base_url background_tasks =
     (case get_user_by_email db (JStr body_email) of
        None \<Rightarrow> (Inl (AttributeError ''confirmed''), background_tasks)
      | Some u \<Rightarrow>
          if confirmed u = Some True then (Inr Email_already_confirmed, background_tasks)
          else (Inr Check_your_email,
                background_tasks @ [Send_email (email u) (username u) base_url]))"

section \<open>Reference instances of the collaborators\<close>

text \<open>
  A symbolic codec: a token is the claim set together with the key and algorithm that
  signed it, or a string that is no token at all. Decoding demands the same key and an
  accepted algorithm, a string subject when there is one, and an expiry that has not
  passed.
\<close>

datatype sym_token = Signed claims string string | Garbage string

definition sym_decode :: "sym_token \<Rightarrow> string \<Rightarrow> string list \<Rightarrow> int \<Rightarrow> exn + claims" where
  "sym_decode t key algs now =
     (case t of
        Garbage s \<Rightarrow> Inl (JWTError ''Not enough segments'')
      | Signed c k a \<Rightarrow>
          if k \<noteq> key \<or> \<not> List.member algs a then
            Inl (JWTError ''Signature verification failed.'')
          else if (case c ''sub'' of None \<Rightarrow> False | Some (JStr s) \<Rightarrow> False | Some v \<Rightarrow> True)
          then Inl (JWTError ''Subject must be a string.'')
          else (case c ''exp'' of
                  None \<Rightarrow> Inr c
                | Some (JInt e) \<Rightarrow>
                    if e < now then Inl (JWTError ''Signature has expired.'') else Inr c
                | Some v \<Rightarrow> Inl (JWTError ''Expiration Time claim (exp) must be an integer.'')))"

definition sym_jwt :: "sym_token jwt" where
  "sym_jwt = \<lparr>encode = Signed, decode = sym_decode\<rparr>"

text \<open>
  The law a codec is expected to obey: a claim set with a string subject and an integer
  expiry, encoded and then decoded under the same key and algorithm no later than the
  expiry, comes back unchanged.
\<close>

definition roundtrip :: "'tok jwt \<Rightarrow> bool" where
  "roundtrip cd \<longleftrightarrow>
     (\<forall>c key alg now e s.
        c ''sub'' = Some (JStr s) \<and> c ''exp'' = Some (JInt e) \<and> now \<le> e \<longrightarrow>
        decode cd (encode cd c key alg) key [alg] now = Inr c)"

text \<open>
  A password context with a single scheme, as the one \<open>class Hash\<close> builds: a hash
  that does not carry one of the scheme's prefixes is not identified, and verification
  raises; an identified hash is handed to the scheme's own check.
\<close>

definition bcrypt_identify :: "string \<Rightarrow> bool" where
  "bcrypt_identify h =
     list_ex (\<lambda>ident. take (length ident) h = ident)
       [''$2$'', ''$2a$'', ''$2x$'', ''$2y$'', ''$2b$'']"

definition bcrypt_context :: "(string \<Rightarrow> string \<Rightarrow> exn + bool) \<Rightarrow> crypt_context" where
  "bcrypt_context check =
     \<lparr>verify = (\<lambda>secret h. if bcrypt_identify h then check secret h else Inl UnknownHashError)\<rparr>"

text \<open>A user service over a list of users, and sample data.\<close>

definition service_of :: "user list \<Rightarrow> user_service" where
  "service_of us =
     \<lparr>get_user_by_username = (\<lambda>v. find (\<lambda>u. JStr (username u) = v) us),
      get_user_by_email = (\<lambda>v. find (\<lambda>u. JStr (email u) = v) us)\<rparr>"

definition alice :: user where
  "alice = \<lparr>user_id = 1, username = ''alice'', email = ''alice@x.com'',
            hashed_password = ''$2b$12$alice'', confirmed = Some True, avatar = None\<rparr>"

definition bob :: user where
  "bob = \<lparr>user_id = 2, username = ''bob'', email = ''bob@x.com'',
          hashed_password = ''$2b$12$bob'', confirmed = Some False, avatar = None\<rparr>"

definition carol :: user where
  "carol = \<lparr>user_id = 3, username = ''carol@x.com'', email = ''carol@x.com'',
            hashed_password = ''$2b$12$carol'', confirmed = Some True, avatar = None\<rparr>"

definition dave :: user where
  "dave = \<lparr>user_id = 4, username = ''dave'', email = ''dave@x.com'',
           hashed_password = ''$2b$12$dave'', confirmed = Some True,
           avatar = Some ''http://img/dave.png''\<rparr>"

text \<open>A toy scheme check for the samples: the stored hash is the prefix followed by the password.\<close>

definition toy_check :: "string \<Rightarrow> string \<Rightarrow> exn + bool" where
  "toy_check secret h = Inr (h = ''$2b$12$'' @ secret)"

section \<open>Facts about the reference codec and the decoding of issued tokens\<close>

lemma sym_jwt_roundtrip: "roundtrip sym_jwt"
  by (simp add: roundtrip_def sym_jwt_def sym_decode_def)

lemma decode_access_token:
  assumes "roundtrip cd" and "now' \<le> expire st now expires_delta"
  shows "decode cd (create_access_token cd st now [''sub'' \<mapsto> JStr u] expires_delta)
           (JWT_SECRET st) [JWT_ALGORITHM st] now' =
         Inr (access_claims st now [''sub'' \<mapsto> JStr u] expires_delta)"
proof -
  let ?c = "access_claims st now [''sub'' \<mapsto> JStr u] expires_delta"
  have "?c ''sub'' = Some (JStr u)" and "?c ''exp'' = Some (JInt (expire st now expires_delta))"
    by (simp_all add: access_claims_def)
  with assms show ?thesis
    unfolding roundtrip_def create_access_token_def by blast
qed

lemma decode_email_token:
  assumes "roundtrip cd" and "now' \<le> now + 604800"
  shows "decode cd (create_email_token cd st now [''sub'' \<mapsto> JStr s])
           (JWT_SECRET st) [JWT_ALGORITHM st] now' =
         Inr (email_claims now [''sub'' \<mapsto> JStr s])"
proof -
  let ?c = "email_claims now [''sub'' \<mapsto> JStr s]"
  have "?c ''sub'' = Some (JStr s)" and "?c ''exp'' = Some (JInt (now + 604800))"
    by (simp_all add: email_claims_def)
  with assms show ?thesis
    unfolding roundtrip_def create_email_token_def by blast
qed

text \<open>The two paths on which a handler leaves through an exception of the interpreter.\<close>

lemma get_current_user_missing_sub:
  assumes "decode cd t (JWT_SECRET st) [JWT_ALGORITHM st] now = Inr p" and "p ''sub'' = None"
  shows "get_current_user cd st db now t = Inl (KeyError ''sub'')"
  using assms by (simp add: get_current_user_def)

lemma request_email_absent_user:
  assumes "get_user_by_email db (JStr e) = None"
  shows "request_email db e url bg = (Inl (AttributeError ''confirmed''), bg)"
  using assms by (simp add: request_email_def)

text \<open>The two outcomes of \<open>login_user\<close>.\<close>

lemma login_user_success:
  assumes "get_user_by_username db (JStr (form_username f)) = Some u"
    and "verify pc (form_password f) (hashed_password u) = Inr True"
    and "confirmed u = Some True"
  shows "login_user cd st pc db now f r =
           (Inr \<lparr>access_token = create_access_token cd st now [''sub'' \<mapsto> JStr (username u)] None,
                 token_type = ''bearer''\<rparr>,
            r(''user:'' @ username u \<mapsto> (snapshot u, Some 3600)))"
  using assms
  by (simp add: login_user_def verify_password_def redis_set_def redis_expire_def Let_def)

lemma login_user_failure:
  assumes "\<not> (\<exists>u. get_user_by_username db (JStr (form_username f)) = Some u \<and>
                  verify pc (form_password f) (hashed_password u) = Inr True \<and>
                  confirmed u = Some True)"
  shows "\<exists>e. login_user cd st pc db now f r = (Inl e, r)"
  using assms
  by (auto simp: login_user_def verify_password_def split: option.splits sum.splits)

text \<open>
  The paths of \<open>get_current_user\<close> with a failed decode or a string subject: 401 for a
  decode failure and for an unknown user, the user otherwise.
\<close>

lemma get_current_user_unauthorized:
  "(decode cd t (JWT_SECRET st) [JWT_ALGORITHM st] now = Inl (JWTError m) \<longrightarrow>
      get_current_user cd st db now t =
        Inl (HTTPException 401 Could_not_validate_credentials [(''WWW-Authenticate'', ''Bearer'')]))
   \<and> (decode cd t (JWT_SECRET st) [JWT_ALGORITHM st] now = Inr p \<and>
      p ''sub'' = Some (JStr u) \<and> get_user_by_username db (JStr u) = None \<longrightarrow>
      get_current_user cd st db now t =
        Inl (HTTPException 401 Could_not_validate_credentials [(''WWW-Authenticate'', ''Bearer'')]))
   \<and> (decode cd t (JWT_SECRET st) [JWT_ALGORITHM st] now = Inr p \<and>
      p ''sub'' = Some (JStr u) \<and> get_user_by_username db (JStr u) = Some usr \<longrightarrow>
      get_current_user cd st db now t = Inr usr)"
  by (simp add: get_current_user_def credentials_exception_def)

lemma get_current_user_unauthorized_examples:
  "get_current_user sym_jwt (Settings ''k'') (service_of [alice, bob]) 1500 (Garbage ''abc'') =
     Inl (HTTPException 401 Could_not_validate_credentials [(''WWW-Authenticate'', ''Bearer'')])
   \<and> get_current_user sym_jwt (Settings ''k'') (service_of [alice, bob]) 1500
       (Signed [''sub'' \<mapsto> JStr ''alice'', ''exp'' \<mapsto> JInt 1400] ''k'' ''HS256'') =
     Inl (HTTPException 401 Could_not_validate_credentials [(''WWW-Authenticate'', ''Bearer'')])
   \<and> get_current_user sym_jwt (Settings ''k'') (service_of [alice, bob]) 1500
       (Signed [''sub'' \<mapsto> JStr ''ghost'', ''exp'' \<mapsto> JInt 4600] ''k'' ''HS256'') =
     Inl (HTTPException 401 Could_not_validate_credentials [(''WWW-Authenticate'', ''Bearer'')])
   \<and> get_current_user sym_jwt (Settings ''k'') (service_of [alice, bob]) 1500
       (Signed [''sub'' \<mapsto> JStr ''bob'', ''exp'' \<mapsto> JInt 4600] ''k'' ''HS256'') =
     Inr bob"
  using
    get_current_user_unauthorized [where cd = sym_jwt and t = "Garbage ''abc''"
      and st = "Settings ''k''" and now = 1500 and m = "''Not enough segments''"
      and db = "service_of [alice, bob]"]
    get_current_user_unauthorized [where cd = sym_jwt
      and t = "Signed [''sub'' \<mapsto> JStr ''alice'', ''exp'' \<mapsto> JInt 1400] ''k'' ''HS256''"
      and st = "Settings ''k''" and now = 1500 and m = "''Signature has expired.''"
      and db = "service_of [alice, bob]"]
    get_current_user_unauthorized [where cd = sym_jwt
      and t = "Signed [''sub'' \<mapsto> JStr ''ghost'', ''exp'' \<mapsto> JInt 4600] ''k'' ''HS256''"
      and st = "Settings ''k''" and now = 1500
      and p = "[''sub'' \<mapsto> JStr ''ghost'', ''exp'' \<mapsto> JInt 4600]"
      and u = "''ghost''" and db = "service_of [alice, bob]"]
    get_current_user_unauthorized [where cd = sym_jwt
      and t = "Signed [''sub'' \<mapsto> JStr ''bob'', ''exp'' \<mapsto> JInt 4600] ''k'' ''HS256''"
      and st = "Settings ''k''" and now = 1500
      and p = "[''sub'' \<mapsto> JStr ''bob'', ''exp'' \<mapsto> JInt 4600]"
      and u = "''bob''" and db = "service_of [alice, bob]" and usr = bob]
  by (simp add: sym_jwt_def sym_decode_def Settings_def service_of_def alice_def bob_def)

section \<open>Claims\<close>

text \<open>
  C1. For every username \<open>u\<close>, the access token issued for the claims \<open>{sub: u}\<close>, presented
  to \<open>get_current_user\<close> no later than its expiry under the same settings, is decoded to the
  subject \<open>u\<close>, and the outcome is that of the user lookup for exactly \<open>u\<close>.
\<close>

theorem access_token_roundtrip:
  assumes "roundtrip cd" and "now' \<le> expire st now expires_delta"
  shows "get_current_user cd st db now'
           (create_access_token cd st now [''sub'' \<mapsto> JStr u] expires_delta) =
         (case get_user_by_username db (JStr u) of
            None \<Rightarrow> Inl credentials_exception
          | Some usr \<Rightarrow> Inr usr)"
  using decode_access_token [OF assms, of u]
  by (simp add: get_current_user_def access_claims_def)

theorem access_token_roundtrip_witness:
  "roundtrip sym_jwt \<and> 1500 \<le> expire (Settings ''k'') 1000 None \<and>
   get_current_user sym_jwt (Settings ''k'') (service_of [alice, bob]) 1500
     (create_access_token sym_jwt (Settings ''k'') 1000 [''sub'' \<mapsto> JStr ''alice''] None)
   = Inr alice"
  using access_token_roundtrip [of sym_jwt 1500 "Settings ''k''" 1000 None
          "service_of [alice, bob]" "''alice''"] sym_jwt_roundtrip
  by (simp add: expire_def Settings_def service_of_def alice_def bob_def)

text \<open>
  C3. Every token should either be refused with the 401 exception or resolve to the user
  the lookup returns. The token below is signed with the configured key and algorithm and
  has not expired, so it decodes; it carries no subject, and \<open>get_current_user\<close> leaves with
  \<open>KeyError\<close>, which is neither the 401 exception nor a user.
\<close>

theorem get_current_user_not_total_gate:
  "decode sym_jwt (Signed [''exp'' \<mapsto> JInt 4600] ''k'' ''HS256'')
     (JWT_SECRET (Settings ''k'')) [JWT_ALGORITHM (Settings ''k'')] 1500 =
     Inr [''exp'' \<mapsto> JInt 4600] \<and>
   get_current_user sym_jwt (Settings ''k'') (service_of [alice, bob]) 1500
     (Signed [''exp'' \<mapsto> JInt 4600] ''k'' ''HS256'') = Inl (KeyError ''sub'') \<and>
   get_current_user sym_jwt (Settings ''k'') (service_of [alice, bob]) 1500
     (Signed [''exp'' \<mapsto> JInt 4600] ''k'' ''HS256'') \<noteq> Inl credentials_exception"
  by (simp add: get_current_user_def credentials_exception_def Settings_def sym_jwt_def
        sym_decode_def)

text \<open>
  C4, as the code has it. The two validation paths decode with the same key and algorithm
  and read the same claim, so tokens of the two kinds are interchangeable: for every subject
  \<open>s\<close>, \<open>get_email_from_token\<close> accepts an unexpired access token for \<open>s\<close> and returns \<open>s\<close>,
  and \<open>get_current_user\<close> given an unexpired e-mail token for \<open>s\<close> looks \<open>s\<close> up as a username,
  failing with 401 only when no user bears that name.
\<close>

theorem token_purposes_interchangeable:
  assumes "roundtrip cd"
  shows "(now' \<le> expire st now expires_delta \<longrightarrow>
            get_email_from_token cd st now'
              (create_access_token cd st now [''sub'' \<mapsto> JStr s] expires_delta) = Inr (JStr s))
       \<and> (now' \<le> now + 604800 \<longrightarrow>
            get_current_user cd st db now' (create_email_token cd st now [''sub'' \<mapsto> JStr s]) =
              (case get_user_by_username db (JStr s) of
                 None \<Rightarrow> Inl credentials_exception
               | Some usr \<Rightarrow> Inr usr))"
proof (intro conjI impI)
  assume "now' \<le> expire st now expires_delta"
  from decode_access_token [OF assms this, of s]
  show "get_email_from_token cd st now'
          (create_access_token cd st now [''sub'' \<mapsto> JStr s] expires_delta) = Inr (JStr s)"
    by (simp add: get_email_from_token_def access_claims_def)
next
  assume "now' \<le> now + 604800"
  from decode_email_token [OF assms this, of st s]
  show "get_current_user cd st db now' (create_email_token cd st now [''sub'' \<mapsto> JStr s]) =
          (case get_user_by_username db (JStr s) of
             None \<Rightarrow> Inl credentials_exception
           | Some usr \<Rightarrow> Inr usr)"
    by (simp add: get_current_user_def email_claims_def)
qed

theorem token_purposes_interchangeable_witness:
  "roundtrip sym_jwt \<and> 1500 \<le> expire (Settings ''k'') 1000 None \<and> (1500::int) \<le> 1000 + 604800 \<and>
   get_email_from_token sym_jwt (Settings ''k'') 1500
     (create_access_token sym_jwt (Settings ''k'') 1000 [''sub'' \<mapsto> JStr ''bob''] None) =
     Inr (JStr ''bob'') \<and>
   get_current_user sym_jwt (Settings ''k'') (service_of [alice, bob]) 1500
     (create_email_token sym_jwt (Settings ''k'') 1000 [''sub'' \<mapsto> JStr ''bob@x.com'']) =
     Inl credentials_exception"
  using token_purposes_interchangeable [where cd = sym_jwt and now' = 1500
          and st = "Settings ''k''" and now = 1000 and expires_delta = None and s = "''bob''"]
        token_purposes_interchangeable [where cd = sym_jwt and now' = 1500
          and st = "Settings ''k''" and now = 1000 and s = "''bob@x.com''"
          and db = "service_of [alice, bob]"]
        sym_jwt_roundtrip
  by (simp add: expire_def Settings_def service_of_def alice_def bob_def)

text \<open>
  An access token for alice passes the e-mail path, and an e-mail token for a user whose
  username is her address passes the access path.
\<close>

theorem token_purposes_counterexample:
  "get_email_from_token sym_jwt (Settings ''k'') 1500
     (create_access_token sym_jwt (Settings ''k'') 1000 [''sub'' \<mapsto> JStr ''alice''] None) =
     Inr (JStr ''alice'') \<and>
   get_current_user sym_jwt (Settings ''k'') (service_of [alice, carol]) 1500
     (create_email_token sym_jwt (Settings ''k'') 1000 [''sub'' \<mapsto> JStr ''carol@x.com'']) =
     Inr carol"
  by (simp add: get_email_from_token_def get_current_user_def create_access_token_def
        create_email_token_def access_claims_def email_claims_def expire_def Settings_def
        sym_jwt_def sym_decode_def service_of_def alice_def carol_def)

text \<open>
  C5, as the code has it. For an e-mail address that belongs to a user, \<open>request_email\<close>
  completes normally: for a confirmed user it answers that the address is already confirmed
  and queues nothing; otherwise it queues the confirmation mail and answers with the
  acknowledgement. The first answer is given only for an existing, confirmed user.
\<close>

theorem request_email_existing_user:
  assumes "get_user_by_email db (JStr e) = Some u"
  shows "request_email db e url bg =
           (if confirmed u = Some True then (Inr Email_already_confirmed, bg)
            else (Inr Check_your_email, bg @ [Send_email (email u) (username u) url]))"
  using assms by (simp add: request_email_def)

theorem request_email_existing_user_witness:
  "get_user_by_email (service_of [alice, bob]) (JStr ''bob@x.com'') = Some bob \<and>
   request_email (service_of [alice, bob]) ''bob@x.com'' ''http://h/'' [] =
     (Inr Check_your_email, [Send_email ''bob@x.com'' ''bob'' ''http://h/''])"
  using request_email_existing_user [of "service_of [alice, bob]" "''bob@x.com''" bob
          "''http://h/''" "[]"]
  by (simp add: service_of_def alice_def bob_def)

text \<open>
  The answers for a confirmed and for an unconfirmed address differ.
\<close>

theorem request_email_counterexample:
  "request_email (service_of [alice, bob]) ''alice@x.com'' ''http://h/'' [] =
     (Inr Email_already_confirmed, []) \<and>
   request_email (service_of [alice, bob]) ''bob@x.com'' ''http://h/'' [] =
     (Inr Check_your_email, [Send_email ''bob@x.com'' ''bob'' ''http://h/'']) \<and>
   Email_already_confirmed \<noteq> Check_your_email"
  by (simp add: request_email_def service_of_def alice_def bob_def)

text \<open>
  C6. A token that decodes to a claim set without a subject should be refused with the 401
  exception. The token issued for the empty dictionary decodes, and \<open>get_current_user\<close>
  leaves with \<open>KeyError\<close> instead.
\<close>

theorem get_current_user_no_subject:
  "get_current_user sym_jwt (Settings ''k'') (service_of [alice, bob]) 1500
     (create_access_token sym_jwt (Settings ''k'') 1000 Map.empty None) = Inl (KeyError ''sub'')"
  by (simp add: get_current_user_def create_access_token_def access_claims_def expire_def
        Settings_def sym_jwt_def sym_decode_def)

text \<open>
  C7, as the code has it. \<open>verify_password\<close> has no handler: an exception of the context's
  \<open>verify\<close> leaves it unchanged. Under the single-scheme context, for every password and
  every hash the scheme does not identify, it raises \<open>UnknownHashError\<close>.
\<close>

theorem verify_password_propagates:
  "(verify pwd_context p h = Inl e \<longrightarrow> verify_password pwd_context p h = Inl e) \<and>
   (\<not> bcrypt_identify h \<longrightarrow> verify_password (bcrypt_context check) p h = Inl UnknownHashError)"
  by (simp add: verify_password_def bcrypt_context_def)

theorem verify_password_propagates_witness:
  "\<not> bcrypt_identify ''not-a-hash'' \<and>
   verify (bcrypt_context toy_check) ''pw'' ''not-a-hash'' = Inl UnknownHashError \<and>
   verify_password (bcrypt_context toy_check) ''pw'' ''not-a-hash'' = Inl UnknownHashError"
  using verify_password_propagates [where h = "''not-a-hash''" and check = toy_check and p = "''pw''"
          and pwd_context = "bcrypt_context toy_check" and e = UnknownHashError]
  by (simp add: bcrypt_identify_def bcrypt_context_def)

text \<open>
  On a string that is no hash the result is not \<open>False\<close>.
\<close>

theorem verify_password_counterexample:
  "verify_password (bcrypt_context toy_check) ''pw'' ''not-a-hash'' \<noteq> Inr False"
  by (simp add: verify_password_def bcrypt_context_def bcrypt_identify_def)

text \<open>
  C8. When decoding fails, \<open>get_email_from_token\<close> fails with the 422 exception, which is not
  the 401 exception \<open>get_current_user\<close> raises for the same token.
\<close>

theorem email_token_failure_kind:
  assumes "decode cd t (JWT_SECRET st) [JWT_ALGORITHM st] now = Inl (JWTError m)"
  shows "get_email_from_token cd st now t = Inl (HTTPException 422 Invalid_email_token []) \<and>
         get_current_user cd st db now t =
           Inl (HTTPException 401 Could_not_validate_credentials
                  [(''WWW-Authenticate'', ''Bearer'')]) \<and>
         get_email_from_token cd st now t \<noteq> Inl credentials_exception"
  using assms
  by (simp add: get_email_from_token_def get_current_user_def credentials_exception_def)

theorem email_token_failure_kind_witness:
  "decode sym_jwt (Signed [''sub'' \<mapsto> JStr ''a@x.com'', ''exp'' \<mapsto> JInt 1400] ''other'' ''HS256'')
     (JWT_SECRET (Settings ''k'')) [JWT_ALGORITHM (Settings ''k'')] 1500 =
     Inl (JWTError ''Signature verification failed.'') \<and>
   get_email_from_token sym_jwt (Settings ''k'') 1500
     (Signed [''sub'' \<mapsto> JStr ''a@x.com'', ''exp'' \<mapsto> JInt 1400] ''other'' ''HS256'') =
     Inl (HTTPException 422 Invalid_email_token [])"
  using email_token_failure_kind [where cd = sym_jwt and st = "Settings ''k''" and now = 1500
          and t = "Signed [''sub'' \<mapsto> JStr ''a@x.com'', ''exp'' \<mapsto> JInt 1400] ''other'' ''HS256''"
          and m = "''Signature verification failed.''"]
  by (simp add: sym_jwt_def sym_decode_def Settings_def)

text \<open>
  C9. \<open>login_user\<close> issues the token for the claims \<open>{sub: username}\<close> with the default
  lifetime and writes the dictionary of the five fields \<open>id\<close>, \<open>username\<close>, \<open>email\<close>,
  \<open>confirmed\<close>, \<open>avatar\<close> of the user under the key \<open>user:\<close> followed by the username, with
  a time to live of 3600 seconds, when the user exists, the password verifies and the
  account is confirmed. For an unknown user, a wrong password or an unconfirmed account it
  raises 401, and in every case other than the successful one it raises and leaves the
  cache as it was.
\<close>

theorem login_user_cache_write:
  "(get_user_by_username db (JStr (form_username f)) = Some u \<and>
    verify pc (form_password f) (hashed_password u) = Inr True \<and>
    confirmed u = Some True \<longrightarrow>
      login_user cd st pc db now f r =
        (Inr \<lparr>access_token =
                 encode cd [''sub'' \<mapsto> JStr (username u),
                            ''exp'' \<mapsto> JInt (now + JWT_EXPIRATION_SECONDS st)]
                   (JWT_SECRET st) (JWT_ALGORITHM st),
              token_type = ''bearer''\<rparr>,
         r(''user:'' @ username u \<mapsto>
             ([(''id'', JInt (user_id u)),
               (''username'', JStr (username u)),
               (''email'', JStr (email u)),
               (''confirmed'', JBool True),
               (''avatar'', (case avatar u of None \<Rightarrow> JNone | Some a \<Rightarrow> JStr a))],
              Some 3600))))
   \<and> (get_user_by_username db (JStr (form_username f)) = None \<longrightarrow>
        login_user cd st pc db now f r =
          (Inl (HTTPException 401 Wrong_login_or_password [(''WWW-Authenticate'', ''Bearer'')]), r))
   \<and> (get_user_by_username db (JStr (form_username f)) = Some u \<and>
      verify pc (form_password f) (hashed_password u) = Inr False \<longrightarrow>
        login_user cd st pc db now f r =
          (Inl (HTTPException 401 Wrong_login_or_password [(''WWW-Authenticate'', ''Bearer'')]), r))
   \<and> (get_user_by_username db (JStr (form_username f)) = Some u \<and>
      verify pc (form_password f) (hashed_password u) = Inr True \<and>
      confirmed u \<noteq> Some True \<longrightarrow>
        login_user cd st pc db now f r = (Inl (HTTPException 401 Email_not_confirmed []), r))
   \<and> (\<not> (\<exists>v. get_user_by_username db (JStr (form_username f)) = Some v \<and>
             verify pc (form_password f) (hashed_password v) = Inr True \<and>
             confirmed v = Some True) \<longrightarrow>
        (\<exists>e. login_user cd st pc db now f r = (Inl e, r)))"
proof (intro conjI impI)
  assume "\<not> (\<exists>v. get_user_by_username db (JStr (form_username f)) = Some v \<and>
             verify pc (form_password f) (hashed_password v) = Inr True \<and>
             confirmed v = Some True)"
  then show "\<exists>e. login_user cd st pc db now f r = (Inl e, r)"
    by (rule login_user_failure)
next
  assume "get_user_by_username db (JStr (form_username f)) = Some u \<and>
    verify pc (form_password f) (hashed_password u) = Inr True \<and> confirmed u = Some True"
  then show "login_user cd st pc db now f r =
        (Inr \<lparr>access_token =
                 encode cd [''sub'' \<mapsto> JStr (username u),
                            ''exp'' \<mapsto> JInt (now + JWT_EXPIRATION_SECONDS st)]
                   (JWT_SECRET st) (JWT_ALGORITHM st),
              token_type = ''bearer''\<rparr>,
         r(''user:'' @ username u \<mapsto>
             ([(''id'', JInt (user_id u)),
               (''username'', JStr (username u)),
               (''email'', JStr (email u)),
               (''confirmed'', JBool True),
               (''avatar'', (case avatar u of None \<Rightarrow> JNone | Some a \<Rightarrow> JStr a))],
              Some 3600)))"
    by (simp add: login_user_success snapshot_def create_access_token_def access_claims_def
          expire_def)
qed (simp_all add: login_user_def verify_password_def)

theorem login_user_cache_write_witness:
  "login_user sym_jwt (Settings ''k'') (bcrypt_context toy_check) (service_of [alice, bob, dave])
     1000 \<lparr>form_username = ''dave'', form_password = ''dave''\<rparr>
     [''user:dave'' \<mapsto> ([], None)] =
     (Inr \<lparr>access_token = Signed [''sub'' \<mapsto> JStr ''dave'', ''exp'' \<mapsto> JInt 4600] ''k'' ''HS256'',
           token_type = ''bearer''\<rparr>,
      [''user:dave'' \<mapsto>
         ([(''id'', JInt 4), (''username'', JStr ''dave''), (''email'', JStr ''dave@x.com''),
           (''confirmed'', JBool True), (''avatar'', JStr ''http://img/dave.png'')], Some 3600)])
   \<and> login_user sym_jwt (Settings ''k'') (bcrypt_context toy_check)
       (service_of [alice, bob, dave]) 1000
       \<lparr>form_username = ''alice'', form_password = ''alice''\<rparr> Map.empty =
     (Inr \<lparr>access_token = Signed [''sub'' \<mapsto> JStr ''alice'', ''exp'' \<mapsto> JInt 4600] ''k'' ''HS256'',
           token_type = ''bearer''\<rparr>,
      [''user:alice'' \<mapsto>
         ([(''id'', JInt 1), (''username'', JStr ''alice''), (''email'', JStr ''alice@x.com''),
           (''confirmed'', JBool True), (''avatar'', JNone)], Some 3600)])
   \<and> login_user sym_jwt (Settings ''k'') (bcrypt_context toy_check)
       (service_of [alice, bob, dave]) 1000
       \<lparr>form_username = ''mallory'', form_password = ''x''\<rparr> Map.empty =
       (Inl (HTTPException 401 Wrong_login_or_password [(''WWW-Authenticate'', ''Bearer'')]),
        Map.empty)
   \<and> login_user sym_jwt (Settings ''k'') (bcrypt_context toy_check)
       (service_of [alice, bob, dave]) 1000
       \<lparr>form_username = ''alice'', form_password = ''wrong''\<rparr> Map.empty =
       (Inl (HTTPException 401 Wrong_login_or_password [(''WWW-Authenticate'', ''Bearer'')]),
        Map.empty)
   \<and> login_user sym_jwt (Settings ''k'') (bcrypt_context toy_check)
       (service_of [alice, bob, dave]) 1000
       \<lparr>form_username = ''bob'', form_password = ''bob''\<rparr> Map.empty =
       (Inl (HTTPException 401 Email_not_confirmed []), Map.empty)"
  using
    login_user_cache_write [where db = "service_of [alice, bob, dave]"
      and pc = "bcrypt_context toy_check"
      and f = "\<lparr>form_username = ''dave'', form_password = ''dave''\<rparr>" and u = dave
      and cd = sym_jwt and st = "Settings ''k''" and now = 1000
      and r = "[''user:dave'' \<mapsto> ([], None)]"]
    login_user_cache_write [where db = "service_of [alice, bob, dave]"
      and pc = "bcrypt_context toy_check"
      and f = "\<lparr>form_username = ''alice'', form_password = ''alice''\<rparr>" and u = alice
      and cd = sym_jwt and st = "Settings ''k''" and now = 1000 and r = Map.empty]
    login_user_cache_write [where db = "service_of [alice, bob, dave]"
      and pc = "bcrypt_context toy_check"
      and f = "\<lparr>form_username = ''mallory'', form_password = ''x''\<rparr>"
      and cd = sym_jwt and st = "Settings ''k''" and now = 1000 and r = Map.empty]
    login_user_cache_write [where db = "service_of [alice, bob, dave]"
      and pc = "bcrypt_context toy_check"
      and f = "\<lparr>form_username = ''alice'', form_password = ''wrong''\<rparr>" and u = alice
      and cd = sym_jwt and st = "Settings ''k''" and now = 1000 and r = Map.empty]
    login_user_cache_write [where db = "service_of [alice, bob, dave]"
      and pc = "bcrypt_context toy_check"
      and f = "\<lparr>form_username = ''bob'', form_password = ''bob''\<rparr>" and u = bob
      and cd = sym_jwt and st = "Settings ''k''" and now = 1000 and r = Map.empty]
  by (simp add: service_of_def bcrypt_context_def bcrypt_identify_def toy_check_def alice_def
        bob_def dave_def Settings_def sym_jwt_def)

text \<open>
  C10. With an \<open>expires_delta\<close> of 0, \<open>create_access_token\<close> signs the given claims with an
  expiry of the current time plus \<open>JWT_EXPIRATION_SECONDS\<close> (3600 under the default
  settings), the same token as without \<open>expires_delta\<close>. Under a codec that obeys the
  round-trip law this token decodes at every moment up to that expiry, the moment of issue
  included: it is not expired when issued.
\<close>

theorem zero_expires_delta_is_default:
  "create_access_token cd st now data (Some 0) =
     encode cd (data(''exp'' \<mapsto> JInt (now + JWT_EXPIRATION_SECONDS st)))
       (JWT_SECRET st) (JWT_ALGORITHM st)
   \<and> create_access_token cd st now data (Some 0) = create_access_token cd st now data None
   \<and> create_access_token cd (Settings secret) now data (Some 0) =
       encode cd (data(''exp'' \<mapsto> JInt (now + 3600))) secret ''HS256''
   \<and> (roundtrip cd \<and> data ''sub'' = Some (JStr u) \<and> now \<le> now' \<and> now' \<le> now + 3600 \<longrightarrow>
        decode cd (create_access_token cd (Settings secret) now data (Some 0))
          secret [''HS256''] now' = Inr (data(''exp'' \<mapsto> JInt (now + 3600))))"
proof (intro conjI impI)
  assume h: "roundtrip cd \<and> data ''sub'' = Some (JStr u) \<and> now \<le> now' \<and> now' \<le> now + 3600"
  let ?c = "data(''exp'' \<mapsto> JInt (now + 3600))"
  have "?c ''sub'' = Some (JStr u)" and "?c ''exp'' = Some (JInt (now + 3600))"
    using h by simp_all
  with h have "decode cd (encode cd ?c secret ''HS256'') secret [''HS256''] now' = Inr ?c"
    unfolding roundtrip_def by blast
  then show "decode cd (create_access_token cd (Settings secret) now data (Some 0))
          secret [''HS256''] now' = Inr ?c"
    by (simp add: create_access_token_def access_claims_def expire_def Settings_def)
qed (simp_all add: create_access_token_def access_claims_def expire_def Settings_def)

theorem zero_expires_delta_is_default_witness:
  "roundtrip sym_jwt \<and>
   create_access_token sym_jwt (Settings ''k'') 1000 [''sub'' \<mapsto> JStr ''alice''] (Some 0) =
     Signed [''sub'' \<mapsto> JStr ''alice'', ''exp'' \<mapsto> JInt 4600] ''k'' ''HS256'' \<and>
   decode sym_jwt
     (create_access_token sym_jwt (Settings ''k'') 1000 [''sub'' \<mapsto> JStr ''alice''] (Some 0))
     ''k'' [''HS256''] 1000 = Inr [''sub'' \<mapsto> JStr ''alice'', ''exp'' \<mapsto> JInt 4600]"
  using zero_expires_delta_is_default [where cd = sym_jwt and secret = "''k''" and now = 1000
          and data = "[''sub'' \<mapsto> JStr ''alice'']" and u = "''alice''" and now' = 1000
          and st = "Settings ''k''"]
        sym_jwt_roundtrip
  by (auto simp: sym_jwt_def Settings_def)

end
